theory Spec2Isabelle
  imports Main "HOL-Library.Word"
begin

section \<open>JavaScript strings and observable actions\<close>

text \<open>
  A JavaScript string is a sequence of UTF-16 code units: \<open>.length\<close> counts code units
  and \<open>===\<close> on two strings compares the sequences. Source literals are written with
  \<open>js\<close> for their ASCII parts and with explicit code units elsewhere
  (\<open>0xE1\<close> is LATIN SMALL LETTER A WITH ACUTE, \<open>0x22\<close> the double quote).
\<close>

type_synonym js_string = "16 word list"

definition js :: "string \<Rightarrow> js_string" where
  "js cs = map of_char cs"

text \<open>
  An argument of a console call: a string, or the form payload \<open>values\<close>, which the
  source types as \<open>any\<close> and only ever passes on to \<open>console.log\<close>.
\<close>

datatype 'v js_arg = Str js_string | Val 'v

text \<open>
  What a handler of a component does, in program order: calls of \<open>console.log\<close> and
  \<open>console.error\<close>, calls of antd's \<open>message.success\<close> and \<open>message.error\<close>
  (the on-screen notifications), and calls of a \<open>useState\<close> setter, kept as the
  update of the component's state that the call requests.
\<close>

datatype ('v, 's) action =
    ConsoleLog "'v js_arg list"
  | ConsoleError "'v js_arg list"
  | MessageSuccess js_string
  | MessageError js_string
  | SetState "'s \<Rightarrow> 's"

fun is_console :: "('v, 's) action \<Rightarrow> bool" where
  "is_console (ConsoleLog _) = True"
| "is_console (ConsoleError _) = True"
| "is_console _ = False"

fun is_success :: "('v, 's) action \<Rightarrow> bool" where
  "is_success (MessageSuccess _) = True"
| "is_success _ = False"

fun is_failure :: "('v, 's) action \<Rightarrow> bool" where
  "is_failure (MessageError _) = True"
| "is_failure _ = False"

definition is_notification :: "('v, 's) action \<Rightarrow> bool" where
  "is_notification a = (is_success a \<or> is_failure a)"

definition console :: "('v, 's) action list \<Rightarrow> ('v, 's) action list" where
  "console acts = filter is_console acts"

definition notifications :: "('v, 's) action list \<Rightarrow> ('v, 's) action list" where
  "notifications acts = filter is_notification acts"

text \<open>
  The state a component holds after a handler has run: React applies the requested
  updates in the order of the setter calls.
\<close>

fun commit :: "('v, 's) action list \<Rightarrow> 's \<Rightarrow> 's" where
  "commit [] s = s"
| "commit (SetState f # acts) s = commit acts (f s)"
| "commit (_ # acts) s = commit acts s"

text \<open>
  React's \<open>useEffect(body, deps)\<close>: the body runs after the first render (no previous
  dependencies) and after every render whose dependencies differ from those of the
  render before.
\<close>

definition useEffect :: "('v, 's) action list \<Rightarrow> 'd option \<Rightarrow> 'd \<Rightarrow> ('v, 's) action list" where
  "useEffect body prev cur = (if prev = Some cur then [] else body)"

text \<open>A change event of an input element; the handlers read \<open>e.target.value\<close> only.\<close>

datatype event = Event (target_value: js_string)

section \<open>LoginPage\<close>

record LoginPage_state =
  username :: js_string
  password :: js_string
  loading :: bool

text \<open>\<open>useState('')\<close>, \<open>useState('')\<close>, \<open>useState(false)\<close>.\<close>

definition LoginPage_init :: LoginPage_state where
  "LoginPage_init = \<lparr>username = [], password = [], loading = False\<rparr>"

definition setUsername :: "js_string \<Rightarrow> LoginPage_state \<Rightarrow> LoginPage_state" where
  "setUsername v s = s\<lparr>username := v\<rparr>"

definition LoginPage_setPassword :: "js_string \<Rightarrow> LoginPage_state \<Rightarrow> LoginPage_state" where
  "LoginPage_setPassword v s = s\<lparr>LoginPage_state.password := v\<rparr>"

definition setLoading :: "bool \<Rightarrow> LoginPage_state \<Rightarrow> LoginPage_state" where
  "setLoading b s = s\<lparr>loading := b\<rparr>"

definition handleUsernameChange :: "event \<Rightarrow> LoginPage_state \<Rightarrow> ('v, LoginPage_state) action list" where
  "handleUsernameChange e s = [SetState (setUsername (target_value e))]"

text \<open>The \<open>onChange\<close> of \<open>Input.Password\<close>: \<open>(e) => setPassword(e.target.value)\<close>.\<close>

definition LoginPage_password_onChange :: "event \<Rightarrow> LoginPage_state \<Rightarrow> ('v, LoginPage_state) action list" where
  "LoginPage_password_onChange e s = [SetState (LoginPage_setPassword (target_value e))]"

definition validatePassword :: "js_string \<Rightarrow> bool" where
  "validatePassword pass = (if length pass < 8 then False else True)"

definition onFinish :: "'v \<Rightarrow> LoginPage_state \<Rightarrow> ('v, LoginPage_state) action list" where
  "onFinish values s =
     ConsoleLog [Str (js ''Form values (do AntD):''), Val values] #
     (if validatePassword (LoginPage_state.password s) \<and> username s = js ''admin''
      then [MessageSuccess (js ''Login bem-sucedido!'')]
      else [ConsoleError [Str (js ''Falha no login. Verifique os dados.'')],
            MessageError (js ''Usu'' @ [0xE1] @ js ''rio ou senha inv'' @ [0xE1] @ js ''lidos.'')])"

text \<open>
  One user event on LoginPage: the handler runs on the state of the current render and
  its updates are committed. The component registers no effect.
\<close>

definition LoginPage_event ::
  "(LoginPage_state \<Rightarrow> ('v, LoginPage_state) action list) \<Rightarrow> LoginPage_state
     \<Rightarrow> ('v, LoginPage_state) action list \<times> LoginPage_state" where
  "LoginPage_event handler s = (let acts = handler s in (acts, commit acts s))"

text \<open>
  The antd \<open>Form\<close> around the inputs. It keeps its own store of the two fields named by
  the \<open>Form.Item\<close>s, \<open>username\<close> and \<open>password\<close>: a field is \<open>undefined\<close>
  (\<open>None\<close>) until the user edits it and holds the text of the input afterwards. This
  store is what the form validates and what it passes to \<open>onFinish\<close> as \<open>values\<close>;
  the \<open>useState\<close> copies are a second holder of the same inputs.
\<close>

record LoginPage_form =
  form_username :: "js_string option"
  form_password :: "js_string option"

text \<open>No field edited yet.\<close>

definition LoginPage_form_init :: LoginPage_form where
  "LoginPage_form_init = \<lparr>form_username = None, form_password = None\<rparr>"

text \<open>
  A message the form shows under one field: the name of the \<open>Form.Item\<close> and the
  \<open>message\<close> of its rule that failed.
\<close>

datatype field_error = FieldError js_string js_string

text \<open>The rule \<open>{ required: true, message }\<close>: it fails on \<open>undefined\<close> and on \<open>''\<close>.\<close>

definition isEmptyValue :: "js_string option \<Rightarrow> bool" where
  "isEmptyValue v = (case v of None \<Rightarrow> True | Some t \<Rightarrow> t = [])"

definition required_rule :: "js_string \<Rightarrow> js_string \<Rightarrow> js_string option \<Rightarrow> field_error list" where
  "required_rule item_name msg v = (if isEmptyValue v then [FieldError item_name msg] else [])"

text \<open>The rules of the two \<open>Form.Item\<close>s, in the order of the fields.\<close>

definition LoginPage_validateFields :: "LoginPage_form \<Rightarrow> field_error list" where
  "LoginPage_validateFields f =
     required_rule (js ''username'') (js ''Por favor, insira seu usu'' @ [0xE1] @ js ''rio!'')
       (form_username f) @
     required_rule (js ''password'') (js ''Por favor, insira sua senha!'') (form_password f)"

text \<open>
  A click on the \<open>Entrar\<close> button (\<open>htmlType="submit"\<close>): the form runs its rules on
  its store. When a rule fails it shows the messages under the fields and does not call
  \<open>onFinish\<close> (the component passes no \<open>onFinishFailed\<close>); otherwise it calls
  \<open>onFinish\<close> with the store. The result is the field messages shown and what the
  handler did.
\<close>

definition LoginPage_submit ::
  "LoginPage_form \<Rightarrow> LoginPage_state
     \<Rightarrow> field_error list \<times> (LoginPage_form, LoginPage_state) action list" where
  "LoginPage_submit f s =
     (let errors = LoginPage_validateFields f
      in if errors = [] then ([], onFinish f s) else (errors, []))"

section \<open>Login (the demo variant)\<close>

record Login_state =
  password :: js_string
  email :: js_string

text \<open>\<open>useState("")\<close>, twice.\<close>

definition Login_init :: Login_state where
  "Login_init = \<lparr>password = [], email = []\<rparr>"

definition Login_setPassword :: "js_string \<Rightarrow> Login_state \<Rightarrow> Login_state" where
  "Login_setPassword v s = s\<lparr>Login_state.password := v\<rparr>"

definition setEmail :: "js_string \<Rightarrow> Login_state \<Rightarrow> Login_state" where
  "setEmail v s = s\<lparr>email := v\<rparr>"

text \<open>
  The two effects of the component, in the order of their declaration: the first logs
  \<open>email\<close> and depends on \<open>[email]\<close>, the second logs \<open>password\<close> and depends
  on \<open>[password]\<close>. \<open>prev\<close> is the state of the render before, \<open>None\<close> at mount.
\<close>

definition Login_effects :: "Login_state option \<Rightarrow> Login_state \<Rightarrow> ('v, Login_state) action list" where
  "Login_effects prev s =
     useEffect [ConsoleLog [Str (email s)]] (map_option (\<lambda>p. [email p]) prev) [email s] @
     useEffect [ConsoleLog [Str (Login_state.password s)]]
       (map_option (\<lambda>p. [Login_state.password p]) prev) [Login_state.password s]"

definition handleEntrar :: "Login_state \<Rightarrow> ('v, Login_state) action list" where
  "handleEntrar s =
     [ConsoleLog [Str (js ''email:''), Str (email s)],
      ConsoleLog [Str (js ''password:''), Str (Login_state.password s)]]"

text \<open>The \<open>onChange\<close> of the email input: \<open>(e) => setEmail(e.target.value)\<close>.\<close>

definition Login_email_onChange :: "event \<Rightarrow> Login_state \<Rightarrow> ('v, Login_state) action list" where
  "Login_email_onChange e s = [SetState (setEmail (target_value e))]"

text \<open>The \<open>onChange\<close> of the password input: \<open>(e) => setPassword(e.target.value)\<close>.\<close>

definition Login_password_onChange :: "event \<Rightarrow> Login_state \<Rightarrow> ('v, Login_state) action list" where
  "Login_password_onChange e s = [SetState (Login_setPassword (target_value e))]"

text \<open>
  One user event on Login: the handler runs on the state of the current render, its
  updates are committed, and the effects whose dependencies changed run after the
  re-render.
\<close>

definition Login_event ::
  "(Login_state \<Rightarrow> ('v, Login_state) action list) \<Rightarrow> Login_state
     \<Rightarrow> ('v, Login_state) action list \<times> Login_state" where
  "Login_event handler s =
     (let acts = handler s; s' = commit acts s
      in (acts @ Login_effects (Some s) s', s'))"

section \<open>Home\<close>

record TechInfo =
  id_key :: js_string
  name :: js_string
  logoUrl :: js_string
  description :: js_string

definition techStackData :: "TechInfo list" where
  "techStackData = [
     \<lparr>id_key = js ''vite'',
      name = js ''Vite'',
      logoUrl = js ''https://vitejs.dev/logo.svg'',
      description = js ''Um '' @ [0x22] @ js ''build tool'' @ [0x22] @ js '' para front-end moderno que oferece uma experi'' @ [0xEA] @ js ''ncia de desenvolvimento extremamente r'' @ [0xE1] @ js ''pida, com Hot Module Replacement (HMR) instant'' @ [0xE2] @ js ''neo.''\<rparr>,
     \<lparr>id_key = js ''react'',
      name = js ''React'',
      logoUrl = js ''https://upload.wikimedia.org/wikipedia/commons/a/a7/React-icon.svg'',
      description = js ''Uma biblioteca JavaScript declarativa, eficiente e flex'' @ [0xED] @ js ''vel para criar interfaces de usu'' @ [0xE1] @ js ''rio (UIs) complexas, baseada em componentes reutiliz'' @ [0xE1] @ js ''veis.''\<rparr>,
     \<lparr>id_key = js ''typescript'',
      name = js ''TypeScript'',
      logoUrl = js ''https://upload.wikimedia.org/wikipedia/commons/4/4c/Typescript_logo_2020.svg'',
      description = js ''Um superset do JavaScript que adiciona tipagem est'' @ [0xE1] @ js ''tica opcional. Ajuda a construir aplica'' @ [0xE7] @ [0xF5] @ js ''es robustas, detectar erros em tempo de compila'' @ [0xE7] @ [0xE3] @ js ''o e melhorar a manutenibilidade.''\<rparr>,
     \<lparr>id_key = js ''ant-design'',
      name = js ''Ant Design (antd)'',
      logoUrl = js ''https://gw.alipayobjects.com/zos/rmsportal/KDpgvguMpGfqaHPjicRK.svg'',
      description = js ''Uma biblioteca de componentes de UI para React, seguindo a linguagem de design Ant. Oferece um conjunto rico de componentes de alta qualidade e prontos para uso.''\<rparr>]"

text \<open>
  The elements \<open>renderTechCards\<close> builds. \<open>Avatar\<close> shows the image at \<open>src\<close>;
  \<open>Card.Meta\<close> shows the avatar, a level-4 \<open>Title\<close> and a \<open>Paragraph\<close>, kept here
  as the texts they enclose; \<open>Col\<close> carries the React key, its four breakpoint spans
  and the card.
\<close>

record Avatar =
  src :: js_string
  shape :: js_string
  size :: nat
  alt :: js_string

record Card =
  hoverable :: bool
  meta_avatar :: Avatar
  meta_title :: js_string
  meta_description :: js_string

record Col =
  key :: js_string
  xs :: nat
  sm :: nat
  md :: nat
  lg :: nat
  card :: Card

text \<open>The body of the \<open>map\<close> callback: one \<open>Col\<close> for one descriptor.\<close>

definition renderTechCard :: "TechInfo \<Rightarrow> Col" where
  "renderTechCard tech =
     \<lparr>key = id_key tech, xs = 24, sm = 12, md = 12, lg = 6,
      card = \<lparr>hoverable = True,
              meta_avatar = \<lparr>src = logoUrl tech, shape = js ''square'', size = 64,
                             alt = name tech @ js '' Logo''\<rparr>,
              meta_title = name tech,
              meta_description = description tech\<rparr>\<rparr>"

text \<open>The children of the \<open>Row\<close>: \<open>techStackData.map(...)\<close>.\<close>

definition renderTechCards :: "Col list" where
  "renderTechCards = map renderTechCard techStackData"

section \<open>Properties of LoginPage\<close>

lemma validatePassword_iff: "validatePassword pass = (8 \<le> length pass)"
  by (auto simp: validatePassword_def)

lemma notifications_onFinish:
  "notifications (onFinish values s) =
     (if 8 \<le> length (LoginPage_state.password s) \<and> username s = js ''admin''
      then [MessageSuccess (js ''Login bem-sucedido!'')]
      else [MessageError (js ''Usu'' @ [0xE1] @ js ''rio ou senha inv'' @ [0xE1] @ js ''lidos.'')])"
  by (simp add: notifications_def onFinish_def is_notification_def validatePassword_iff)

lemma console_onFinish:
  "console (onFinish values s) =
     (if 8 \<le> length (LoginPage_state.password s) \<and> username s = js ''admin''
      then [ConsoleLog [Str (js ''Form values (do AntD):''), Val values]]
      else [ConsoleLog [Str (js ''Form values (do AntD):''), Val values],
            ConsoleError [Str (js ''Falha no login. Verifique os dados.'')]])"
  by (simp add: console_def onFinish_def validatePassword_iff)

lemma commit_onFinish: "commit (onFinish values s) s' = s'"
  by (simp add: onFinish_def)

lemma commit_handleEntrar: "commit (handleEntrar s) s' = s'"
  by (simp add: handleEntrar_def)

lemma Login_effects_same: "Login_effects (Some s) s = []"
  by (simp add: Login_effects_def useEffect_def)

lemma console_handleEntrar: "console (handleEntrar t) = handleEntrar t"
  by (simp add: console_def handleEntrar_def)

lemma handleEntrar_not_Nil: "handleEntrar t \<noteq> []"
  by (simp add: handleEntrar_def)

lemma console_email_onChange:
  "console (Login_email_onChange e t @ Login_effects (Some t) (commit (Login_email_onChange e t) t)) =
     (if target_value e = email t then [] else [ConsoleLog [Str (target_value e)]])"
  by (simp add: console_def Login_email_onChange_def setEmail_def Login_effects_def useEffect_def)

lemma console_password_onChange:
  "console (Login_password_onChange e t @
       Login_effects (Some t) (commit (Login_password_onChange e t) t)) =
     (if target_value e = Login_state.password t then [] else [ConsoleLog [Str (target_value e)]])"
  by (simp add: console_def Login_password_onChange_def Login_setPassword_def Login_effects_def
      useEffect_def)

lemma console_handleUsernameChange: "console (handleUsernameChange e s) = []"
  by (simp add: console_def handleUsernameChange_def)

lemma console_LoginPage_password_onChange: "console (LoginPage_password_onChange e s) = []"
  by (simp add: console_def LoginPage_password_onChange_def)

lemma Login_event_handleEntrar: "Login_event handleEntrar t = (handleEntrar t, t)"
  by (simp add: Login_event_def Let_def commit_handleEntrar Login_effects_same)

lemma handleEntrar_shape:
  "list_all is_console (handleEntrar t)" "length (handleEntrar t) = 2"
  "notifications (handleEntrar t) = []"
  by (simp_all add: handleEntrar_def notifications_def is_notification_def)

lemma onFinish_shape:
  "list_all (\<lambda>a. is_console a \<or> is_notification a) (onFinish values s)"
  by (simp add: onFinish_def is_notification_def)

text \<open>
  Claim C1. On every submission, \<open>onFinish\<close> emits a success notification exactly
  when the held password has at least 8 code units and the held username is the literal
  \<open>admin\<close>, and it emits a failure notification exactly in every other case.
\<close>

theorem onFinish_success_iff:
  "list_ex is_success (onFinish values s) =
     (8 \<le> length (LoginPage_state.password s) \<and> username s = js ''admin'') \<and>
   list_ex is_failure (onFinish values s) =
     (\<not> (8 \<le> length (LoginPage_state.password s) \<and> username s = js ''admin''))"
  by (simp add: onFinish_def validatePassword_iff)

text \<open>
  Claim C4. The three concrete scenarios: \<open>admin\<close> with \<open>password123\<close> gives exactly
  one success notification; \<open>guest\<close> with \<open>password123\<close> and \<open>admin\<close> with
  \<open>short\<close> give exactly one failure notification each.
\<close>

theorem onFinish_scenarios:
  "notifications (onFinish values
       \<lparr>username = js ''admin'', password = js ''password123'', loading = l\<rparr>) =
     [MessageSuccess (js ''Login bem-sucedido!'')] \<and>
   notifications (onFinish values
       \<lparr>username = js ''guest'', password = js ''password123'', loading = l\<rparr>) =
     [MessageError (js ''Usu'' @ [0xE1] @ js ''rio ou senha inv'' @ [0xE1] @ js ''lidos.'')] \<and>
   notifications (onFinish values
       \<lparr>username = js ''admin'', password = js ''short'', loading = l\<rparr>) =
     [MessageError (js ''Usu'' @ [0xE1] @ js ''rio ou senha inv'' @ [0xE1] @ js ''lidos.'')]"
proof -
  have len: "length (js ''password123'') = 11" "length (js ''short'') = 5"
    by (simp_all add: js_def)
  have ne: "js ''guest'' \<noteq> js ''admin''"
    by (simp add: js_def)
  show ?thesis
    by (simp add: notifications_onFinish len ne)
qed

text \<open>
  Claim C5. A held password shorter than 8 gives the failure notification, whatever the
  held username is.
\<close>

theorem onFinish_short_secret:
  "length (LoginPage_state.password s) < 8 \<Longrightarrow>
   notifications (onFinish values s) =
     [MessageError (js ''Usu'' @ [0xE1] @ js ''rio ou senha inv'' @ [0xE1] @ js ''lidos.'')]"
  by (simp add: notifications_onFinish)

text \<open>The short password \<open>short\<close> with the accepted username.\<close>

theorem onFinish_short_secret_witness:
  "length (LoginPage_state.password
       \<lparr>username = js ''admin'', password = js ''short'', loading = False\<rparr>) < 8 \<and>
   notifications (onFinish ()
       \<lparr>username = js ''admin'', password = js ''short'', loading = False\<rparr>) =
     [MessageError (js ''Usu'' @ [0xE1] @ js ''rio ou senha inv'' @ [0xE1] @ js ''lidos.'')]"
proof -
  have short: "length (LoginPage_state.password
       \<lparr>username = js ''admin'', password = js ''short'', loading = False\<rparr>) < 8"
    by (simp add: js_def)
  from short onFinish_short_secret [OF short, of "()"] show ?thesis
    by simp
qed

text \<open>
  Claim C8, as stated: on every validation failure the only report to the user is the
  generic notification, and no field-level feedback is produced. This fails when a field
  of the form is empty. With \<open>admin\<close> typed and the password field never edited, the held
  password is too short; a click on \<open>Entrar\<close> shows the message of the password field
  under that field, \<open>onFinish\<close> is not called and no notification is shown.
\<close>

theorem empty_password_field_feedback:
  "length (LoginPage_state.password
       \<lparr>username = js ''admin'', password = [], loading = False\<rparr>) < 8 \<and>
   LoginPage_submit \<lparr>form_username = Some (js ''admin''), form_password = None\<rparr>
       \<lparr>username = js ''admin'', password = [], loading = False\<rparr> =
     ([FieldError (js ''password'') (js ''Por favor, insira sua senha!'')], [])"
  by (simp add: LoginPage_submit_def LoginPage_validateFields_def required_rule_def
      isEmptyValue_def Let_def js_def)

text \<open>
  Claim C8, amended. When validation in \<open>onFinish\<close> fails (held password shorter than 8
  or held username different from \<open>admin\<close>), \<open>onFinish\<close> reports to the user through the
  single \<open>message.error\<close> with one fixed text, the same for either cause, so that nothing
  in it tells which field was wrong. Field-level feedback comes from the form's
  \<open>required\<close> rules only: a click on \<open>Entrar\<close> shows, for each empty field of the
  form, that field's own message under it; when there is such a message \<open>onFinish\<close> is
  not called and no notification is shown, and when there is none the click shows the
  generic notification alone.
\<close>

theorem validation_failure_reports:
  "length (LoginPage_state.password s) < 8 \<or> username s \<noteq> js ''admin'' \<Longrightarrow>
   notifications (onFinish values s) =
     [MessageError (js ''Usu'' @ [0xE1] @ js ''rio ou senha inv'' @ [0xE1] @ js ''lidos.'')] \<and>
   fst (LoginPage_submit f s) =
     (if isEmptyValue (form_username f)
      then [FieldError (js ''username'')
              (js ''Por favor, insira seu usu'' @ [0xE1] @ js ''rio!'')]
      else []) @
     (if isEmptyValue (form_password f)
      then [FieldError (js ''password'') (js ''Por favor, insira sua senha!'')]
      else []) \<and>
   notifications (snd (LoginPage_submit f s)) =
     (if fst (LoginPage_submit f s) = []
      then [MessageError (js ''Usu'' @ [0xE1] @ js ''rio ou senha inv'' @ [0xE1] @ js ''lidos.'')]
      else [])"
proof -
  assume failure: "length (LoginPage_state.password s) < 8 \<or> username s \<noteq> js ''admin''"
  have generic: "notifications (onFinish v s) =
     [MessageError (js ''Usu'' @ [0xE1] @ js ''rio ou senha inv'' @ [0xE1] @ js ''lidos.'')]" for v
    using failure by (auto simp: notifications_onFinish)
  have shown: "fst (LoginPage_submit f s) = LoginPage_validateFields f"
    by (simp add: LoginPage_submit_def Let_def)
  have fields: "LoginPage_validateFields f =
     (if isEmptyValue (form_username f)
      then [FieldError (js ''username'')
              (js ''Por favor, insira seu usu'' @ [0xE1] @ js ''rio!'')]
      else []) @
     (if isEmptyValue (form_password f)
      then [FieldError (js ''password'') (js ''Por favor, insira sua senha!'')]
      else [])"
    by (simp add: LoginPage_validateFields_def required_rule_def)
  have shown_notes: "notifications (snd (LoginPage_submit f s)) =
     (if LoginPage_validateFields f = [] then notifications (onFinish f s) else [])"
    by (simp add: LoginPage_submit_def Let_def notifications_def)
  show ?thesis
    unfolding shown shown_notes generic by (simp add: fields)
qed

text \<open>
  The username \<open>guest\<close> with a long enough password, both typed into the form: the click
  reaches \<open>onFinish\<close> and shows the generic notification, with no message under a field.
\<close>

theorem validation_failure_reports_witness:
  "(length (LoginPage_state.password
        \<lparr>username = js ''guest'', password = js ''password123'', loading = False\<rparr>) < 8 \<or>
    username \<lparr>username = js ''guest'', password = js ''password123'', loading = False\<rparr>
      \<noteq> js ''admin'') \<and>
   notifications (onFinish ()
       \<lparr>username = js ''guest'', password = js ''password123'', loading = False\<rparr>) =
     [MessageError (js ''Usu'' @ [0xE1] @ js ''rio ou senha inv'' @ [0xE1] @ js ''lidos.'')] \<and>
   fst (LoginPage_submit
       \<lparr>form_username = Some (js ''guest''), form_password = Some (js ''password123'')\<rparr>
       \<lparr>username = js ''guest'', password = js ''password123'', loading = False\<rparr>) = [] \<and>
   notifications (snd (LoginPage_submit
       \<lparr>form_username = Some (js ''guest''), form_password = Some (js ''password123'')\<rparr>
       \<lparr>username = js ''guest'', password = js ''password123'', loading = False\<rparr>)) =
     [MessageError (js ''Usu'' @ [0xE1] @ js ''rio ou senha inv'' @ [0xE1] @ js ''lidos.'')]"
proof -
  have mismatch: "length (LoginPage_state.password
        \<lparr>username = js ''guest'', password = js ''password123'', loading = False\<rparr>) < 8 \<or>
    username \<lparr>username = js ''guest'', password = js ''password123'', loading = False\<rparr>
      \<noteq> js ''admin''"
    by (simp add: js_def)
  have filled: "\<not> isEmptyValue (Some (js ''guest''))" "\<not> isEmptyValue (Some (js ''password123''))"
    by (simp_all add: isEmptyValue_def js_def)
  from mismatch filled
    validation_failure_reports [OF mismatch, of "()"
      "\<lparr>form_username = Some (js ''guest''), form_password = Some (js ''password123'')\<rparr>"]
  show ?thesis
    by simp
qed

text \<open>
  Claim C9. The notification of \<open>onFinish\<close> does not depend on its \<open>values\<close>
  argument: on the same held username and password, any two payloads give the same
  notifications.
\<close>

theorem onFinish_ignores_values:
  "notifications (onFinish values1 s) = notifications (onFinish values2 s)"
  by (simp add: notifications_onFinish)

text \<open>
  Claim C10. A submission changes no stored value: after \<open>onFinish\<close> the state of
  LoginPage (username, password, loading) and after \<open>handleEntrar\<close> the state of Login
  (password, email) are what they were, on either branch.
\<close>

theorem submission_keeps_state:
  "snd (LoginPage_event (onFinish values) s) = s \<and>
   snd (Login_event (handleEntrar :: Login_state \<Rightarrow> ('v, Login_state) action list) t) = t"
  by (simp add: LoginPage_event_def Login_event_def Let_def commit_onFinish commit_handleEntrar)

text \<open>
  Claim C7. Field independence in both variants: a change of the username (email) field
  leaves the stored password as it was, and a change of the password field leaves the
  stored username (email) as it was.
\<close>

theorem field_independence:
  "LoginPage_state.password (snd (LoginPage_event (handleUsernameChange e) s)) =
     LoginPage_state.password s \<and>
   username (snd (LoginPage_event (LoginPage_password_onChange e) s)) = username s \<and>
   Login_state.password (snd (Login_event (Login_email_onChange e) t)) =
     Login_state.password t \<and>
   email (snd (Login_event (Login_password_onChange e) t)) = email t"
  by (simp add: LoginPage_event_def Login_event_def Let_def handleUsernameChange_def
      LoginPage_password_onChange_def Login_email_onChange_def Login_password_onChange_def
      setUsername_def LoginPage_setPassword_def setEmail_def Login_setPassword_def)

text \<open>
  Claim C2, as stated: every state change of an input field and every submission produces
  console output, in both variants. In LoginPage this fails: typing \<open>a\<close> into the empty
  username field changes the stored username and nothing is written to the console.
\<close>

theorem LoginPage_keystroke_silent:
  "username (snd (LoginPage_event
       (handleUsernameChange (Event (js ''a'')) :: LoginPage_state \<Rightarrow> (unit, LoginPage_state) action list)
       LoginPage_init))
     \<noteq> username LoginPage_init \<and>
   console (fst (LoginPage_event (handleUsernameChange (Event (js ''a''))) LoginPage_init)) =
     ([] :: (unit, LoginPage_state) action list)"
  by (simp add: LoginPage_event_def Let_def handleUsernameChange_def setUsername_def
      LoginPage_init_def console_def js_def)

text \<open>
  Claim C2, amended. Every submission produces console output, in both variants
  (\<open>onFinish\<close> and \<open>handleEntrar\<close>). In the demo Login, every change of the value of
  the email or of the password field produces console output, through the effect that
  depends on it. In LoginPage the two field handlers produce no console output.
\<close>

theorem console_output:
  "console (fst (LoginPage_event (onFinish (values :: 'v)) s)) \<noteq> [] \<and>
   console (fst (Login_event handleEntrar t)) \<noteq> ([] :: ('v, Login_state) action list) \<and>
   (target_value e \<noteq> email t \<longrightarrow>
      console (fst (Login_event (Login_email_onChange e) t))
        \<noteq> ([] :: ('v, Login_state) action list)) \<and>
   (target_value e \<noteq> Login_state.password t \<longrightarrow>
      console (fst (Login_event (Login_password_onChange e) t))
        \<noteq> ([] :: ('v, Login_state) action list)) \<and>
   console (fst (LoginPage_event (handleUsernameChange e) s))
     = ([] :: ('v, LoginPage_state) action list) \<and>
   console (fst (LoginPage_event (LoginPage_password_onChange e) s))
     = ([] :: ('v, LoginPage_state) action list)"
  by (simp add: LoginPage_event_def Login_event_def Let_def console_onFinish
      console_handleEntrar Login_effects_same console_email_onChange
      console_password_onChange console_handleUsernameChange
      console_LoginPage_password_onChange commit_handleEntrar handleEntrar_not_Nil)

text \<open>Typing \<open>a\<close> into the empty fields of both variants.\<close>

theorem console_output_witness:
  "target_value (Event (js ''a'')) \<noteq> email Login_init \<and>
   target_value (Event (js ''a'')) \<noteq> Login_state.password Login_init \<and>
   console (fst (LoginPage_event (onFinish ()) LoginPage_init)) \<noteq> [] \<and>
   console (fst (Login_event handleEntrar Login_init)) \<noteq> ([] :: (unit, Login_state) action list) \<and>
   console (fst (Login_event (Login_email_onChange (Event (js ''a''))) Login_init))
     \<noteq> ([] :: (unit, Login_state) action list) \<and>
   console (fst (Login_event (Login_password_onChange (Event (js ''a''))) Login_init))
     \<noteq> ([] :: (unit, Login_state) action list) \<and>
   console (fst (LoginPage_event (handleUsernameChange (Event (js ''a''))) LoginPage_init))
     = ([] :: (unit, LoginPage_state) action list) \<and>
   console (fst (LoginPage_event (LoginPage_password_onChange (Event (js ''a''))) LoginPage_init))
     = ([] :: (unit, LoginPage_state) action list)"
proof -
  have h: "target_value (Event (js ''a'')) \<noteq> email Login_init"
    "target_value (Event (js ''a'')) \<noteq> Login_state.password Login_init"
    by (simp_all add: Login_init_def js_def)
  from h console_output [of "()" LoginPage_init Login_init "Event (js ''a'')"] show ?thesis
    by simp
qed


text \<open>
  Claim C3, as stated: in every variant the login action shows a notification besides its
  console output. In the demo variant this fails: \<open>handleEntrar\<close> shows none.
\<close>

theorem handleEntrar_no_notification:
  "notifications (fst (Login_event handleEntrar
       \<lparr>password = js ''password123'', email = js ''admin''\<rparr>)) =
     ([] :: (unit, Login_state) action list)"
  by (simp add: Login_event_def Let_def handleEntrar_def notifications_def
      is_notification_def Login_effects_def useEffect_def)

text \<open>
  Claim C3, amended. In LoginPage the login action \<open>onFinish\<close> only writes to the
  console and shows exactly one notification. In the demo Login the login action
  \<open>handleEntrar\<close> only writes to the console, by two calls of \<open>console.log\<close>, and
  shows no notification.
\<close>

theorem login_action_effects:
  "list_all (\<lambda>a. is_console a \<or> is_notification a)
     (fst (LoginPage_event (onFinish (values :: 'v)) s)) \<and>
   length (notifications (fst (LoginPage_event (onFinish values) s))) = 1 \<and>
   list_all is_console (fst (Login_event handleEntrar t) :: ('v, Login_state) action list) \<and>
   length (fst (Login_event handleEntrar t) :: ('v, Login_state) action list) = 2 \<and>
   notifications (fst (Login_event handleEntrar t)) = ([] :: ('v, Login_state) action list) \<and>
   fst (Login_event handleEntrar t) =
     ([ConsoleLog [Str (js ''email:''), Str (email t)],
       ConsoleLog [Str (js ''password:''), Str (Login_state.password t)]]
      :: ('v, Login_state) action list)"
  by (simp add: LoginPage_event_def Let_def Login_event_handleEntrar handleEntrar_shape
      onFinish_shape notifications_onFinish)
    (simp add: handleEntrar_def)

section \<open>Properties of Home\<close>

lemma techStackData_keys:
  "map id_key techStackData = [js ''vite'', js ''react'', js ''typescript'', js ''ant-design'']"
  by (simp add: techStackData_def)

lemma techStackData_keys_distinct: "distinct (map id_key techStackData)"
  unfolding techStackData_keys by (simp add: js_def)

text \<open>
  Claim C6. \<open>renderTechCards\<close> produces one card for each of the four descriptors of
  \<open>techStackData\<close>, in order; each card shows its descriptor's name as title, its
  \<open>logoUrl\<close> as the avatar's image and its description; the React keys are the
  descriptors' ids, and they are pairwise distinct.
\<close>

theorem renderTechCards_cards:
  "length renderTechCards = length techStackData \<and>
   length techStackData = 4 \<and>
   map (\<lambda>c. meta_title (card c)) renderTechCards = map name techStackData \<and>
   map (\<lambda>c. src (meta_avatar (card c))) renderTechCards = map logoUrl techStackData \<and>
   map (\<lambda>c. meta_description (card c)) renderTechCards = map description techStackData \<and>
   map key renderTechCards = map id_key techStackData \<and>
   distinct (map key renderTechCards)"
proof -
  have keys: "map key renderTechCards = map id_key techStackData"
    by (simp add: renderTechCards_def renderTechCard_def)
  have len: "length techStackData = 4"
    by (simp add: techStackData_def)
  show ?thesis
    unfolding keys
    by (simp add: renderTechCards_def renderTechCard_def len techStackData_keys_distinct)
qed

end
